theory Spec2Isabelle
  imports Complex_Main
begin

section \<open>JavaScript strings\<close>

text \<open>
  A JavaScript string is a sequence of UTF-16 code units. The script reads its file with
  the \<^verbatim>\<open>utf8\<close> encoding, so the content it works on is such a sequence; the prompt
  template holds three characters outside ASCII, two of them surrogate pairs.
\<close>

type_synonym jsstring = "nat list"

definition str :: "string \<Rightarrow> jsstring" where
  "str s = map of_char s"

subsection \<open>Truthiness of an optional string\<close>

text \<open>
  \<^verbatim>\<open>process.env.OPENAI_API_KEY\<close> and \<^verbatim>\<open>process.argv[2]\<close> are either
  \<^verbatim>\<open>undefined\<close> (\<open>None\<close>) or a string; \<^verbatim>\<open>!x\<close> holds for \<^verbatim>\<open>undefined\<close>
  and for the empty string.
\<close>

definition ToBoolean :: "jsstring option \<Rightarrow> bool" where
  "ToBoolean v = (case v of None \<Rightarrow> False | Some s \<Rightarrow> s \<noteq> [])"

subsection \<open>String.prototype.trim\<close>

text \<open>
  \<^verbatim>\<open>trim\<close> strips the code units of ECMAScript's WhiteSpace and LineTerminator
  productions from both ends: TAB, LF, VT, FF, CR, SP, NBSP, U+1680, U+2000 to U+200A,
  U+2028, U+2029, U+202F, U+205F, U+3000 and U+FEFF.
\<close>

definition isWhiteSpace :: "nat \<Rightarrow> bool" where
  "isWhiteSpace c =
     (c \<in> set [9, 10, 11, 12, 13, 32, 160, 5760, 8232, 8233, 8239, 8287, 12288, 65279]
      \<or> (8192 \<le> c \<and> c \<le> 8202))"

definition trim :: "jsstring \<Rightarrow> jsstring" where
  "trim s = rev (dropWhile isWhiteSpace (rev (dropWhile isWhiteSpace s)))"

subsection \<open>String.prototype.replace with a string pattern\<close>

text \<open>
  \<^verbatim>\<open>StringIndexOf(string, searchValue, 0)\<close>: the least index at which
  \<open>searchValue\<close> occurs, \<open>None\<close> when it does not occur.
\<close>

fun StringIndexOf :: "jsstring \<Rightarrow> jsstring \<Rightarrow> nat option" where
  "StringIndexOf [] searchValue = (if searchValue = [] then Some 0 else None)"
| "StringIndexOf (c # cs) searchValue =
     (if take (length searchValue) (c # cs) = searchValue then Some 0
      else map_option Suc (StringIndexOf cs searchValue))"

text \<open>
  \<^verbatim>\<open>GetSubstitution(matched, str, position, captures, namedCaptures, replacement)\<close>
  with no captures, which is how \<^verbatim>\<open>replace\<close> calls it for a string pattern. In the
  replacement text \<^verbatim>\<open>$$\<close> stands for a dollar sign, \<^verbatim>\<open>$`\<close> for the part of
  the string before the match, \<^verbatim>\<open>$&\<close> for the match and \<^verbatim>\<open>$'\<close> for the part
  after it. A dollar sign followed by digits or by \<^verbatim>\<open><\<close> refers to a capture; with
  no captures it is copied as it stands, which is what the last branch does. The code
  units are 36 for \<^verbatim>\<open>$\<close>, 96 for the backquote, 38 for \<^verbatim>\<open>&\<close> and 39 for the quote.
\<close>

fun GetSubstitution :: "jsstring \<Rightarrow> jsstring \<Rightarrow> nat \<Rightarrow> jsstring \<Rightarrow> jsstring" where
  "GetSubstitution matched string position [] = []"
| "GetSubstitution matched string position [c] = [c]"
| "GetSubstitution matched string position (c # d # rest) =
     (if c = 36 \<and> d = 36 then 36 # GetSubstitution matched string position rest
      else if c = 36 \<and> d = 96 then
        take position string @ GetSubstitution matched string position rest
      else if c = 36 \<and> d = 38 then
        matched @ GetSubstitution matched string position rest
      else if c = 36 \<and> d = 39 then
        drop (min (position + length matched) (length string)) string
          @ GetSubstitution matched string position rest
      else c # GetSubstitution matched string position (d # rest))"

definition replace :: "jsstring \<Rightarrow> jsstring \<Rightarrow> jsstring \<Rightarrow> jsstring" where
  "replace string searchString replaceValue =
     (case StringIndexOf string searchString of
        None \<Rightarrow> string
      | Some position \<Rightarrow>
          take position string
            @ GetSubstitution searchString string position replaceValue
            @ drop (position + length searchString) string)"

section \<open>The prompt template\<close>

text \<open>
  The template literal \<^verbatim>\<open>promptTemplate\<close>, line by line. The literal opens with a
  line break and every line of it ends with one. 10060 is the cross mark, 55357 56589 the
  magnifying glass and 55357 56522 the bar chart.
\<close>

definition template_objective :: "jsstring list" where
  \<open>template_objective =
    [str ''## Objective'',
     str ''Your task is to implement a function for maintaining stock levels. The function should read stock update instructions from an input file and output the updated stock levels in a specific format to the console.'',
     []]\<close>

definition template_input_format :: "jsstring list" where
  \<open>template_input_format =
    [str ''## Input File Format'',
     str ''- Each new line of the file will represent a separate instruction.'',
     str ''- Lines are terminated by a newline character.'',
     [],
     str ''### Possible Instructions'',
     str ''The file contains three types of instructions:'',
     [],
     str ''1. **set-stock**: Initialize stock levels'',
     str ''   - Syntax: set-stock <sku-id> <stock-level> [<sku-id> <stock-level>] ...'',
     str ''   - Example: set-stock AB-6 100 CD-3 200'',
     [],
     str ''2. **add-stock**: Add to existing stock'',
     str ''   - Syntax: add-stock <sku-id> <stock-amount> [<sku-id> <stock-amount>] ...'',
     str ''   - Example: add-stock AB-6 20 CD-3 10'',
     [],
     str ''3. **order**: Deduct from stock for an order'',
     str ''   - Syntax: order <order-ref> <sku-id> <quantity> [<sku-id> <quantity>] ...'',
     str ''   - Example: order ON-123 AB-6 2 CD-3 1'',
     []]\<close>

definition template_requirements :: "jsstring list" where
  \<open>template_requirements =
    [str ''## Requirements and Validation'',
     [],
     str ''### SKU-ID Format'',
     str ''- SKU-IDs are alphanumeric strings.'',
     str ''- Length should be between 2 to 10 characters.'',
     [],
     str ''### Quantities and Stock Levels'',
     str ''- Quantities and stock levels must be non-negative integers.'',
     str ''- Maximum allowable stock level is 10,000.'',
     [],
     str ''### Additional Requirements'',
     str ''- SKU must be initialized using set-stock before performing add-stock or order operations on it.'',
     str ''- An order cannot be processed if the required quantity is greater than the available stock level for that SKU.'',
     str ''- All input amounts must be integers.'',
     [],
     str ''### Behaviors and Validations'',
     str ''1. **Initialization Requirement**: SKU must be initialized using set-stock before performing add-stock or order operations on it.'',
     str ''2. **Negative Stock**: If an order operation makes stock level negative, the operation should proceed, but the negative stock level must be flagged for review.'',
     str ''3. **Disallow Negative Inputs**: Commands like set-stock or add-stock should not accept negative amounts.'',
     [],
     str ''If any of these requirements are not met, terminate the process, return the errors using a "'' @ [10060] @ str ''" emoji, and do not proceed with outputting the stock levels.'',
     []]\<close>

definition template_output :: "jsstring list" where
  \<open>template_output =
    [str ''## Output'',
     str ''- Your code should print the updated stock levels to the console.'',
     str ''- Stock levels should be sorted alphabetically by SKU.'',
     [],
     str ''### Output Format'',
     str ''Your output should consist of two main sections:'',
     str ''1. **Logging**: Log each instruction as it's processed. Use the following format:'',
     str ''    '',
     str ''    '' @ [55357, 56589] @ str '' Processing instruction [number]: [instruction]'',
     str ''   '',
     str ''2. **Result**: Summarize the final stock levels as follows:'',
     str ''   '',
     str ''    '' @ [55357, 56522] @ str '' Final Stock Levels:'',
     str ''    [SKU] [Stock Level]'',
     str ''   '',
     str ''    Example:'',
     str ''   '',
     str ''    '' @ [55357, 56522] @ str '' Final Stock Levels:'',
     str ''    AB-6 118'',
     str ''    CD-3 214'',
     str ''    DE-1 209'',
     str ''    FG-4 300'',
     str ''   '',
     []]\<close>

definition template_closing :: "jsstring list" where
  \<open>template_closing =
    [str ''## Validation'',
     str ''- Your code should validate the input file and instructions based on these specifications.'',
     str ''- Invalid instructions should be skipped and flagged.'',
     [],
     str ''## Bonus'',
     str ''- Implement logging to keep track of each instruction's effect, as per the logging format described above.'',
     [],
     str ''---'',
     [],
     str ''Please summarize the operations performed on the stock levels based on these instructions in the specified output format.'',
     [],
     str ''---'',
     []]\<close>

definition import_marker :: jsstring where
  "import_marker = str ''Here is the import file:''"

definition template_trailer :: "jsstring list" where
  "template_trailer =
    [[],
     str ''If requirements are not met, please don't calculate anything and just return the errors.'']"

definition template_heading :: "jsstring list" where
  "template_heading =
     template_objective @ template_input_format @ template_requirements
       @ template_output @ template_closing"

definition promptTemplate_lines :: "jsstring list" where
  "promptTemplate_lines = template_heading @ [import_marker] @ template_trailer"

definition lines_text :: "jsstring list \<Rightarrow> jsstring" where
  "lines_text ls = concat (map (\<lambda>l. l @ [10]) ls)"

definition promptTemplate :: jsstring where
  "promptTemplate = 10 # lines_text promptTemplate_lines"

section \<open>The script\<close>

subsection \<open>What the script reads and what it does\<close>

text \<open>
  A thrown value as the \<^verbatim>\<open>catch\<close> block reads it: \<^verbatim>\<open>error.message\<close>, and
  \<^verbatim>\<open>error.response\<close> when the HTTP client attached one. \<open>status\<close> and \<open>data\<close>
  are the texts that the template literal of the handler renders for them.
\<close>

record http_response =
  status :: jsstring
  data :: jsstring

record js_error =
  error_message :: jsstring
  error_response :: "http_response option"

text \<open>The argument of \<^verbatim>\<open>openai.createCompletion\<close>.\<close>

record completion_request =
  model :: jsstring
  prompt :: jsstring
  max_tokens :: nat
  temperature :: rat

text \<open>
  The result of the call as far as the script reads it:
  \<^verbatim>\<open>completion.data.choices\<close>, each choice with its optional \<^verbatim>\<open>text\<close>.
\<close>

datatype choice = Choice (choice_text: "jsstring option")

record completion =
  choices :: "choice list"

text \<open>
  Everything outside the script that a run depends on: the environment after
  \<^verbatim>\<open>dotenv.config()\<close>, the command line, the working directory, the file system
  and the completion service. The working directory is taken to exist, and the service to
  answer or to fail: a call that never returns is not part of the model.
\<close>

record world =
  OPENAI_API_KEY :: "jsstring option"
  argv2 :: "jsstring option"
  cwd :: jsstring
  readFile :: "jsstring \<Rightarrow> js_error + jsstring"
  createCompletion :: "completion_request \<Rightarrow> js_error + completion"

text \<open>
  A run is the sequence of its effects. \<open>ProcessExit 1\<close> is \<^verbatim>\<open>process.exit(1)\<close>;
  \<open>ProcessExit 0\<close> is the end of a script that has nothing left to do.
\<close>

datatype event =
    ConsoleError jsstring
  | ConsoleLog jsstring
  | ReadFile jsstring
  | CreateCompletion completion_request
  | ProcessExit nat

subsection \<open>The functions of the script\<close>

text \<open>\<^verbatim>\<open>process.exit\<close> does not return: the two events end the run.\<close>

definition handleError :: "jsstring \<Rightarrow> event list" where
  "handleError message = [ConsoleError message, ProcessExit 1]"

definition initializeOpenAI ::
  "world \<Rightarrow> event list + (completion_request \<Rightarrow> js_error + completion)" where
  "initializeOpenAI w =
     (let apiKey = OPENAI_API_KEY w in
      if \<not> ToBoolean apiKey then Inl (handleError (str ''OpenAI API key not configured''))
      else Inr (createCompletion w))"

definition generatePrompt :: "jsstring \<Rightarrow> jsstring \<Rightarrow> jsstring" where
  "generatePrompt template stockInstructions =
     replace template (str ''Here is the import file:'')
       (str ''Here is the import file:'' @ [10] @ stockInstructions)"

text \<open>The \<^verbatim>\<open>catch\<close> block of \<^verbatim>\<open>main\<close>.\<close>

definition main_catch :: "js_error \<Rightarrow> event list" where
  "main_catch error =
     (case error_response error of
        Some r \<Rightarrow> handleError (status r @ str '' '' @ data r)
      | None \<Rightarrow> handleError (str ''Error: '' @ error_message error))"

text \<open>
  \<^verbatim>\<open>console.log\<close> with a label and a second argument prints the two with a space
  between; a string is printed as it is and \<^verbatim>\<open>undefined\<close> by its name.
\<close>

definition display :: "jsstring option \<Rightarrow> jsstring" where
  "display v = (case v of None \<Rightarrow> str ''undefined'' | Some s \<Rightarrow> s)"

definition request_for :: "jsstring \<Rightarrow> completion_request" where
  "request_for customizedPrompt =
     \<lparr>model = str ''text-davinci-003'', prompt = customizedPrompt,
      max_tokens = 500, temperature = 6 / 10\<rparr>"

text \<open>
  The \<^verbatim>\<open>try\<close> block of \<^verbatim>\<open>main\<close>. Reading \<^verbatim>\<open>choices[0].text\<close> of an empty
  \<^verbatim>\<open>choices\<close> throws a TypeError, which the \<^verbatim>\<open>catch\<close> block receives.
\<close>

definition main_try ::
  "world \<Rightarrow> (completion_request \<Rightarrow> js_error + completion) \<Rightarrow> jsstring \<Rightarrow> event list" where
  "main_try w openai filePathArg =
     ReadFile filePathArg #
     (case readFile w filePathArg of
        Inl error \<Rightarrow> main_catch error
      | Inr stockInstructions \<Rightarrow>
          if length (trim stockInstructions) = 0 then
            handleError (str ''Please enter valid stock instructions in the file.'')
          else
            ConsoleLog (str ''Current working directory: '' @ cwd w) #
            (let customizedPrompt = generatePrompt promptTemplate stockInstructions;
                 request = request_for customizedPrompt
             in CreateCompletion request #
                (case openai request of
                   Inl error \<Rightarrow> main_catch error
                 | Inr completion \<Rightarrow>
                     (case choices completion of
                        [] \<Rightarrow>
                          main_catch
                            \<lparr>error_message = str ''Cannot read properties of undefined (reading 'text')'',
                             error_response = None\<rparr>
                      | first # _ \<Rightarrow>
                          [ConsoleLog (str ''OpenAI Response: '' @ display (choice_text first)),
                           ProcessExit 0]))))"

text \<open>
  \<^verbatim>\<open>!filePathArg\<close> holds when the argument is missing and when it is the empty
  string.
\<close>

definition main ::
  "world \<Rightarrow> (completion_request \<Rightarrow> js_error + completion) \<Rightarrow> event list" where
  "main w openai =
     (case argv2 w of
        None \<Rightarrow>
          handleError (str ''Please specify the path to the file containing stock instructions.'')
      | Some filePathArg \<Rightarrow>
          if filePathArg = [] then
            handleError (str ''Please specify the path to the file containing stock instructions.'')
          else main_try w openai filePathArg)"

text \<open>The module: the client is initialised first, then \<^verbatim>\<open>main\<close> runs.\<close>

definition program :: "world \<Rightarrow> event list" where
  "program w =
     (case initializeOpenAI w of
        Inl events \<Rightarrow> events
      | Inr openai \<Rightarrow> main w openai)"

subsection \<open>What a run shows\<close>

definition stdout_of :: "event list \<Rightarrow> jsstring list" where
  "stdout_of events = concat (map (\<lambda>e. case e of ConsoleLog s \<Rightarrow> [s] | _ \<Rightarrow> []) events)"

definition stderr_of :: "event list \<Rightarrow> jsstring list" where
  "stderr_of events = concat (map (\<lambda>e. case e of ConsoleError s \<Rightarrow> [s] | _ \<Rightarrow> []) events)"

definition exit_status :: "event list \<Rightarrow> nat list" where
  "exit_status events = concat (map (\<lambda>e. case e of ProcessExit n \<Rightarrow> [n] | _ \<Rightarrow> []) events)"

definition files_read :: "event list \<Rightarrow> jsstring list" where
  "files_read events = concat (map (\<lambda>e. case e of ReadFile p \<Rightarrow> [p] | _ \<Rightarrow> []) events)"

definition requests_of :: "event list \<Rightarrow> completion_request list" where
  "requests_of events =
     concat (map (\<lambda>e. case e of CreateCompletion r \<Rightarrow> [r] | _ \<Rightarrow> []) events)"

subsection \<open>The two parts of the template around the marker line\<close>

definition template_before :: jsstring where
  "template_before = 10 # lines_text template_heading"

definition template_after :: jsstring where
  "template_after = 10 # lines_text template_trailer"

subsection \<open>The runs that end in an error\<close>

text \<open>
  The guards of the script, in the order in which a run meets them: the API key, the
  argument, the read of the file, the blank content, the completion request, and the first
  choice of its result.
\<close>

definition run_fails :: "world \<Rightarrow> bool" where
  "run_fails w =
     (\<not> ToBoolean (OPENAI_API_KEY w) \<or>
      (case argv2 w of
         None \<Rightarrow> True
       | Some filePathArg \<Rightarrow>
           filePathArg = [] \<or>
           (case readFile w filePathArg of
              Inl error \<Rightarrow> True
            | Inr stockInstructions \<Rightarrow>
                trim stockInstructions = [] \<or>
                (case createCompletion w
                        (request_for (generatePrompt promptTemplate stockInstructions)) of
                   Inl error \<Rightarrow> True
                 | Inr completion \<Rightarrow> choices completion = []))))"

section \<open>Example runs\<close>

text \<open>
  A world with one file, \<^verbatim>\<open>stock.txt\<close>, and a completion service that answers every
  request with one choice.
\<close>

definition ENOENT :: js_error where
  "ENOENT = \<lparr>error_message = str ''ENOENT: no such file or directory'', error_response = None\<rparr>"

definition example_world ::
  "jsstring option \<Rightarrow> jsstring option \<Rightarrow> jsstring \<Rightarrow> jsstring \<Rightarrow> world" where
  "example_world key arg content reply =
     \<lparr>OPENAI_API_KEY = key, argv2 = arg, cwd = str ''/srv/stock'',
      readFile = (\<lambda>path. if path = str ''stock.txt'' then Inr content else Inl ENOENT),
      createCompletion = (\<lambda>request. Inr \<lparr>choices = [Choice (Some reply)]\<rparr>)\<rparr>"

text \<open>
  The format that the specification gives for a SKU-ID, \<^verbatim>\<open>^[A-Za-z0-9]{2,10}$\<close>. It
  follows the specification's words: the script has no such check.
\<close>

definition spec_sku_id_format :: "jsstring \<Rightarrow> bool" where
  "spec_sku_id_format s =
     (2 \<le> length s \<and> length s \<le> 10 \<and>
      list_all (\<lambda>c. (48 \<le> c \<and> c \<le> 57) \<or> (65 \<le> c \<and> c \<le> 90) \<or> (97 \<le> c \<and> c \<le> 122)) s)"

section \<open>Facts about the string operations\<close>

lemma trim_eq_Nil_iff: "trim s = [] \<longleftrightarrow> (\<forall>c\<in>set s. isWhiteSpace c)"
proof
  assume "trim s = []"
  then have "dropWhile isWhiteSpace (rev (dropWhile isWhiteSpace s)) = []"
    by (simp add: trim_def)
  then have all: "\<forall>c\<in>set (dropWhile isWhiteSpace s). isWhiteSpace c"
    by simp
  have "dropWhile isWhiteSpace s = []"
  proof (rule ccontr)
    assume ne: "dropWhile isWhiteSpace s \<noteq> []"
    then have "\<not> isWhiteSpace (hd (dropWhile isWhiteSpace s))"
      by (rule hd_dropWhile)
    moreover have "hd (dropWhile isWhiteSpace s) \<in> set (dropWhile isWhiteSpace s)"
      using ne by simp
    ultimately show False using all by blast
  qed
  then show "\<forall>c\<in>set s. isWhiteSpace c"
    by simp
next
  assume "\<forall>c\<in>set s. isWhiteSpace c"
  then have d: "dropWhile isWhiteSpace s = []"
    by simp
  show "trim s = []"
    unfolding trim_def d by simp
qed

lemma StringIndexOf_first:
  "c \<notin> set before \<Longrightarrow>
   StringIndexOf (before @ (c # m) @ after) (c # m) = Some (length before)"
proof (induction before)
  case Nil
  show ?case by simp
next
  case (Cons b before)
  then have "b \<noteq> c" and "c \<notin> set before" by auto
  with Cons.IH show ?case by simp
qed

lemma GetSubstitution_no_dollar:
  "36 \<notin> set t \<Longrightarrow> GetSubstitution m s p t = t"
  by (induction m s p t rule: GetSubstitution.induct) auto

lemma GetSubstitution_append:
  "36 \<notin> set a \<Longrightarrow> GetSubstitution m s p (a @ t) = a @ GetSubstitution m s p t"
proof (induction a)
  case Nil
  show ?case by simp
next
  case (Cons c a)
  then have c: "c \<noteq> 36" and a: "36 \<notin> set a" by auto
  show ?case
  proof (cases "a @ t")
    case Nil
    then show ?thesis by simp
  next
    case (Cons d rest)
    with c have "GetSubstitution m s p (c # a @ t) = c # GetSubstitution m s p (a @ t)"
      by simp
    with Cons.IH a show ?thesis by simp
  qed
qed

lemma promptTemplate_split:
  "promptTemplate = template_before @ import_marker @ template_after"
  by (simp add: promptTemplate_def promptTemplate_lines_def template_before_def
      template_after_def lines_text_def)

lemma no_H_objective: "72 \<notin> set (lines_text template_objective)"
  by (simp add: lines_text_def template_objective_def str_def)
lemma no_H_input_format: "72 \<notin> set (lines_text template_input_format)"
  by (simp add: lines_text_def template_input_format_def str_def)
lemma no_H_requirements: "72 \<notin> set (lines_text template_requirements)"
  by (simp add: lines_text_def template_requirements_def str_def)
lemma no_H_output: "72 \<notin> set (lines_text template_output)"
  by (simp add: lines_text_def template_output_def str_def)
lemma no_H_closing: "72 \<notin> set (lines_text template_closing)"
  by (simp add: lines_text_def template_closing_def str_def)

section \<open>The prompt that generatePrompt builds from the template\<close>

text \<open>
  The marker line is the only place of the template with a capital H, so the search of
  \<^verbatim>\<open>replace\<close> stops there.
\<close>

lemma import_marker_Cons: "import_marker = 72 # str ''ere is the import file:''"
  by (simp add: import_marker_def str_def)

lemma no_H_template_before: "72 \<notin> set template_before"
proof -
  have "lines_text template_heading =
      lines_text template_objective @ lines_text template_input_format
        @ lines_text template_requirements @ lines_text template_output
        @ lines_text template_closing"
    by (simp add: template_heading_def lines_text_def)
  then show ?thesis
    by (simp add: template_before_def no_H_objective no_H_input_format no_H_requirements
        no_H_output no_H_closing)
qed

lemma no_dollar_import_marker: "36 \<notin> set (import_marker @ [10])"
  by (simp add: import_marker_def str_def)

lemma StringIndexOf_promptTemplate:
  "StringIndexOf promptTemplate import_marker = Some (length template_before)"
proof -
  have "StringIndexOf (template_before @ (72 # str ''ere is the import file:'') @ template_after)
      (72 # str ''ere is the import file:'') = Some (length template_before)"
    using no_H_template_before by (rule StringIndexOf_first)
  then show ?thesis
    by (simp only: promptTemplate_split import_marker_Cons)
qed

lemma generatePrompt_promptTemplate:
  "generatePrompt promptTemplate stockInstructions =
     template_before @ import_marker @ [10]
       @ GetSubstitution import_marker promptTemplate (length template_before) stockInstructions
       @ template_after"
proof -
  have g: "GetSubstitution import_marker promptTemplate (length template_before)
        (import_marker @ 10 # stockInstructions) =
      import_marker
        @ 10 # GetSubstitution import_marker promptTemplate (length template_before) stockInstructions"
    using GetSubstitution_append [OF no_dollar_import_marker] by simp
  have t: "take (length template_before) promptTemplate = template_before"
    by (simp add: promptTemplate_split)
  have d: "drop (length template_before + length import_marker) promptTemplate = template_after"
    by (simp add: promptTemplate_split)
  have "generatePrompt promptTemplate stockInstructions =
      replace promptTemplate import_marker ((import_marker @ [10]) @ stockInstructions)"
    by (simp add: generatePrompt_def import_marker_def)
  also have "\<dots> = template_before
      @ GetSubstitution import_marker promptTemplate (length template_before)
          ((import_marker @ [10]) @ stockInstructions)
      @ template_after"
    by (simp only: replace_def StringIndexOf_promptTemplate option.case t d)
  finally show ?thesis
    by (simp add: g)
qed

lemma generatePrompt_verbatim:
  "36 \<notin> set stockInstructions \<Longrightarrow>
   generatePrompt promptTemplate stockInstructions =
     template_before @ import_marker @ [10] @ stockInstructions @ template_after"
  by (simp add: generatePrompt_promptTemplate GetSubstitution_no_dollar)

section \<open>The runs of the script\<close>

lemma handleError_shows:
  "stderr_of (before @ handleError message) = stderr_of before @ [message]"
  "exit_status (before @ handleError message) = exit_status before @ [1]"
  "stdout_of (before @ handleError message) = stdout_of before"
  by (simp_all add: handleError_def stderr_of_def exit_status_def stdout_of_def)

lemma main_catch_handleError: "\<exists>message. main_catch error = handleError message"
  by (cases "error_response error") (auto simp: main_catch_def)

lemma program_unfold:
  "program w =
     (if \<not> ToBoolean (OPENAI_API_KEY w) then
        handleError (str ''OpenAI API key not configured'')
      else
        (case argv2 w of
           None \<Rightarrow>
             handleError (str ''Please specify the path to the file containing stock instructions.'')
         | Some p \<Rightarrow>
             if p = [] then
               handleError (str ''Please specify the path to the file containing stock instructions.'')
             else
               ReadFile p #
               (case readFile w p of
                  Inl e \<Rightarrow> main_catch e
                | Inr s \<Rightarrow>
                    if trim s = [] then
                      handleError (str ''Please enter valid stock instructions in the file.'')
                    else
                      ConsoleLog (str ''Current working directory: '' @ cwd w) #
                      CreateCompletion (request_for (generatePrompt promptTemplate s)) #
                      (case createCompletion w (request_for (generatePrompt promptTemplate s)) of
                         Inl e \<Rightarrow> main_catch e
                       | Inr c \<Rightarrow>
                           (case choices c of
                              [] \<Rightarrow>
                                main_catch
                                  \<lparr>error_message =
                                     str ''Cannot read properties of undefined (reading 'text')'',
                                   error_response = None\<rparr>
                            | first # _ \<Rightarrow>
                                [ConsoleLog (str ''OpenAI Response: '' @ display (choice_text first)),
                                 ProcessExit 0])))))"
  by (simp add: program_def initializeOpenAI_def main_def main_try_def Let_def
      split: option.split sum.split list.split)

lemma program_success:
  assumes "ToBoolean (OPENAI_API_KEY w)" and "argv2 w = Some p" and "p \<noteq> []"
    and "readFile w p = Inr s" and "trim s \<noteq> []"
    and "createCompletion w (request_for (generatePrompt promptTemplate s)) = Inr c"
    and "choices c = first # others"
  shows "program w =
     [ReadFile p,
      ConsoleLog (str ''Current working directory: '' @ cwd w),
      CreateCompletion (request_for (generatePrompt promptTemplate s)),
      ConsoleLog (str ''OpenAI Response: '' @ display (choice_text first)),
      ProcessExit 0]"
  using assms by (simp add: program_unfold)

lemma program_ends:
  "(\<exists>before message. program w = before @ handleError message
       \<and> stderr_of before = [] \<and> exit_status before = []
       \<and> (stdout_of before = [] \<or> stdout_of before = [str ''Current working directory: '' @ cwd w]))
   \<or> (\<exists>p s c first others. ToBoolean (OPENAI_API_KEY w) \<and> argv2 w = Some p \<and> p \<noteq> []
       \<and> readFile w p = Inr s \<and> trim s \<noteq> []
       \<and> createCompletion w (request_for (generatePrompt promptTemplate s)) = Inr c
       \<and> choices c = first # others)"
  (is "?fails \<or> ?succeeds")
proof -
  have fails: ?fails
    if "program w = before @ handleError message"
      and "before = [] \<or> (\<exists>p. before = [ReadFile p]) \<or>
        (\<exists>p r. before = [ReadFile p, ConsoleLog (str ''Current working directory: '' @ cwd w),
            CreateCompletion r])"
    for before message
  proof -
    from that(2) have "stderr_of before = [] \<and> exit_status before = []
        \<and> (stdout_of before = [] \<or> stdout_of before = [str ''Current working directory: '' @ cwd w])"
      by (auto simp: stderr_of_def exit_status_def stdout_of_def)
    with that(1) show ?thesis by blast
  qed
  show ?thesis
  proof (cases "ToBoolean (OPENAI_API_KEY w)")
    case False
    then have "program w = [] @ handleError (str ''OpenAI API key not configured'')"
      by (simp add: program_unfold)
    then have ?fails by (rule fails) simp
    then show ?thesis ..
  next
    case key: True
    show ?thesis
    proof (cases "argv2 w")
      case None
      with key have "program w = [] @ handleError
          (str ''Please specify the path to the file containing stock instructions.'')"
        by (simp add: program_unfold)
      then have ?fails by (rule fails) simp
      then show ?thesis ..
    next
      case arg: (Some p)
      show ?thesis
      proof (cases "p = []")
        case True
        with key arg have "program w = [] @ handleError
            (str ''Please specify the path to the file containing stock instructions.'')"
          by (simp add: program_unfold)
        then have ?fails by (rule fails) simp
        then show ?thesis ..
      next
        case path: False
        show ?thesis
        proof (cases "readFile w p")
          case (Inl e)
          obtain m where "main_catch e = handleError m"
            using main_catch_handleError by blast
          with key arg path Inl have "program w = [ReadFile p] @ handleError m"
            by (simp add: program_unfold)
          then have ?fails by (rule fails) simp
          then show ?thesis ..
        next
          case rd: (Inr s)
          show ?thesis
          proof (cases "trim s = []")
            case True
            with key arg path rd have "program w = [ReadFile p] @ handleError
                (str ''Please enter valid stock instructions in the file.'')"
              by (simp add: program_unfold)
            then have ?fails by (rule fails) simp
            then show ?thesis ..
          next
            case content: False
            let ?r = "request_for (generatePrompt promptTemplate s)"
            let ?b = "[ReadFile p, ConsoleLog (str ''Current working directory: '' @ cwd w),
              CreateCompletion ?r]"
            show ?thesis
            proof (cases "createCompletion w ?r")
              case (Inl e)
              obtain m where "main_catch e = handleError m"
                using main_catch_handleError by blast
              with key arg path rd content Inl have "program w = ?b @ handleError m"
                by (simp add: program_unfold)
              then have ?fails by (rule fails) simp
              then show ?thesis ..
            next
              case reply: (Inr c)
              show ?thesis
              proof (cases "choices c")
                case Nil
                obtain m where "main_catch
                    \<lparr>error_message = str ''Cannot read properties of undefined (reading 'text')'',
                     error_response = None\<rparr> = handleError m"
                  using main_catch_handleError by blast
                with key arg path rd content reply Nil have "program w = ?b @ handleError m"
                  by (simp add: program_unfold)
                then have ?fails by (rule fails) simp
                then show ?thesis ..
              next
                case (Cons first others)
                with key arg path rd content reply have ?succeeds by simp
                then show ?thesis ..
              qed
            qed
          qed
        qed
      qed
    qed
  qed
qed

lemma not_run_fails_iff:
  "\<not> run_fails w \<longleftrightarrow>
     (\<exists>p s c first others. ToBoolean (OPENAI_API_KEY w) \<and> argv2 w = Some p \<and> p \<noteq> []
       \<and> readFile w p = Inr s \<and> trim s \<noteq> []
       \<and> createCompletion w (request_for (generatePrompt promptTemplate s)) = Inr c
       \<and> choices c = first # others)"
  by (auto simp: run_fails_def neq_Nil_conv split: option.splits sum.splits)

lemma program_forwards:
  assumes "ToBoolean (OPENAI_API_KEY w)" and "argv2 w = Some p" and "p \<noteq> []"
    and "readFile w p = Inr s" and "trim s \<noteq> []" and "36 \<notin> set s"
    and "createCompletion w
          (request_for (template_before @ import_marker @ [10] @ s @ template_after)) = Inr c"
    and "choices c = first # others"
  shows "program w =
     [ReadFile p,
      ConsoleLog (str ''Current working directory: '' @ cwd w),
      CreateCompletion (request_for (template_before @ import_marker @ [10] @ s @ template_after)),
      ConsoleLog (str ''OpenAI Response: '' @ display (choice_text first)),
      ProcessExit 0]"
proof -
  from assms(6) have "generatePrompt promptTemplate s =
      template_before @ import_marker @ [10] @ s @ template_after"
    by (rule generatePrompt_verbatim)
  with assms show ?thesis
    by (simp add: program_unfold)
qed

lemma set_promptTemplate_lines:
  "set promptTemplate_lines =
     set template_objective \<union> set template_input_format \<union> set template_requirements
       \<union> set template_output \<union> set template_closing \<union> {import_marker}
       \<union> set template_trailer"
  by (auto simp: promptTemplate_lines_def template_heading_def)

lemma failing_run_output:
  "run_fails w \<Longrightarrow>
   stdout_of (program w) =
     (if requests_of (program w) = [] then []
      else [str ''Current working directory: '' @ cwd w])"
  by (auto simp: run_fails_def program_unfold handleError_def main_catch_def stdout_of_def
      requests_of_def split: option.splits sum.splits list.splits)

lemma trim_set_stock: "trim (str ''set-stock '' @ rest) \<noteq> []"
  by (simp add: trim_eq_Nil_iff str_def isWhiteSpace_def)

section \<open>The claims\<close>

subsection \<open>C1: the file content inside the prompt\<close>

text \<open>
  C1 says that for every file content the prompt sent to the service is the template
  with the content embedded character for character after the line
  \<^verbatim>\<open>Here is the import file:\<close>. The second argument of \<^verbatim>\<open>replace\<close> is a
  replacement pattern, so this fails for a content with a dollar pattern: for the content
  \<^verbatim>\<open>$&\<close> the prompt, and the request of the run, hold the marker line a second time
  in place of the content, and of \<^verbatim>\<open>set-stock AB $$5\<close> one dollar sign is lost.
\<close>

theorem C1_generatePrompt_dollar_patterns:
  "generatePrompt promptTemplate (str ''$&'') =
     template_before @ import_marker @ [10] @ import_marker @ template_after
   \<and> generatePrompt promptTemplate (str ''$&'') \<noteq>
     template_before @ import_marker @ [10] @ str ''$&'' @ template_after
   \<and> requests_of (program (example_world (Some (str ''sk-test'')) (Some (str ''stock.txt''))
        (str ''$&'') (str ''AB 5''))) =
     [request_for (template_before @ import_marker @ [10] @ import_marker @ template_after)]
   \<and> generatePrompt promptTemplate (str ''set-stock AB $$5'') =
     template_before @ import_marker @ [10] @ str ''set-stock AB $5'' @ template_after"
proof -
  have a: "generatePrompt promptTemplate (str ''$&'') =
      template_before @ import_marker @ [10] @ import_marker @ template_after"
    by (simp add: generatePrompt_promptTemplate str_def)
  have b: "template_before @ import_marker @ [10] @ import_marker @ template_after \<noteq>
      template_before @ import_marker @ [10] @ str ''$&'' @ template_after"
    by (simp add: import_marker_def str_def)
  have c: "generatePrompt promptTemplate (str ''set-stock AB $$5'') =
      template_before @ import_marker @ [10] @ str ''set-stock AB $5'' @ template_after"
    by (simp add: generatePrompt_promptTemplate str_def)
  have d: "requests_of (program (example_world (Some (str ''sk-test''))
        (Some (str ''stock.txt'')) (str ''$&'') (str ''AB 5''))) =
      [request_for (generatePrompt promptTemplate (str ''$&''))]"
    by (simp add: program_unfold example_world_def ToBoolean_def requests_of_def str_def
        trim_def isWhiteSpace_def)
  from a b c d show ?thesis by (simp only: simp_thms)
qed

subsection \<open>C2: the response is printed as it is\<close>

text \<open>
  C2: for every successful API response the program prints the text of the first choice
  unmodified, and does not inspect it. When a run has sent a request and the service has
  answered it with a first choice of text \<open>t\<close>, the rest of the run is the line
  \<^verbatim>\<open>OpenAI Response:\<close> followed by \<open>t\<close> and the end of the script, the same for
  every \<open>t\<close>.
\<close>

theorem C2_first_choice_printed_unmodified:
  assumes "CreateCompletion request \<in> set (program w)"
    and "createCompletion w request = Inr completion"
    and "choices completion = Choice (Some t) # others"
  shows "\<exists>filePathArg. program w =
     [ReadFile filePathArg,
      ConsoleLog (str ''Current working directory: '' @ cwd w),
      CreateCompletion request,
      ConsoleLog (str ''OpenAI Response: '' @ t),
      ProcessExit 0]"
  using assms
  by (auto simp: program_unfold handleError_def main_catch_def display_def
      split: if_splits option.splits sum.splits list.splits)

theorem C2_witness:
  "CreateCompletion (request_for (generatePrompt promptTemplate (str ''set-stock AB 5'')))
     \<in> set (program (example_world (Some (str ''sk-test'')) (Some (str ''stock.txt''))
          (str ''set-stock AB 5'') (str ''AB 5'')))
   \<and> (\<exists>filePathArg. program (example_world (Some (str ''sk-test'')) (Some (str ''stock.txt''))
          (str ''set-stock AB 5'') (str ''AB 5'')) =
     [ReadFile filePathArg,
      ConsoleLog (str ''Current working directory: /srv/stock''),
      CreateCompletion (request_for (generatePrompt promptTemplate (str ''set-stock AB 5''))),
      ConsoleLog (str ''OpenAI Response: AB 5''),
      ProcessExit 0])"
proof -
  let ?w = "example_world (Some (str ''sk-test'')) (Some (str ''stock.txt''))
          (str ''set-stock AB 5'') (str ''AB 5'')"
  let ?r = "request_for (generatePrompt promptTemplate (str ''set-stock AB 5''))"
  have sent: "CreateCompletion ?r \<in> set (program ?w)"
    by (simp add: program_unfold example_world_def ToBoolean_def str_def trim_def
        isWhiteSpace_def)
  have answer: "createCompletion ?w ?r = Inr \<lparr>choices = [Choice (Some (str ''AB 5''))]\<rparr>"
    by (simp add: example_world_def)
  have "choices \<lparr>choices = [Choice (Some (str ''AB 5''))]\<rparr> = Choice (Some (str ''AB 5'')) # []"
    by simp
  from C2_first_choice_printed_unmodified [OF sent answer this] sent
  show ?thesis by (simp add: example_world_def str_def)
qed

subsection \<open>C3: the exit status\<close>

text \<open>
  C3, amended: a run ends in an error exactly when the API key is missing, the argument
  is missing or empty, the file cannot be read, the file is blank, the completion request
  fails or its result has no choice. Such a run writes one message to standard error and
  exits with status 1; its standard output is empty when no request was sent and holds
  only the line with the working directory when one was. Every other run, whatever
  instructions the file holds, reads the file named by the argument, prints the working
  directory, sends one request with the prompt built from the content, prints
  \<^verbatim>\<open>OpenAI Response:\<close> with the text of the first choice of the answer (the word
  \<^verbatim>\<open>undefined\<close> when the choice has no text), writes no error and ends with
  status 0: the script checks no instruction.
\<close>

theorem C3_exit_status_follows_the_guards:
  "(run_fails w \<longrightarrow>
      (\<exists>message. stderr_of (program w) = [message]) \<and> exit_status (program w) = [1]
      \<and> stdout_of (program w) =
          (if requests_of (program w) = [] then []
           else [str ''Current working directory: '' @ cwd w]))
   \<and> (\<not> run_fails w \<longrightarrow>
      (\<exists>filePathArg stockInstructions completion first others.
          argv2 w = Some filePathArg
        \<and> readFile w filePathArg = Inr stockInstructions
        \<and> createCompletion w (request_for (generatePrompt promptTemplate stockInstructions))
            = Inr completion
        \<and> choices completion = first # others
        \<and> program w =
            [ReadFile filePathArg,
             ConsoleLog (str ''Current working directory: '' @ cwd w),
             CreateCompletion (request_for (generatePrompt promptTemplate stockInstructions)),
             ConsoleLog (str ''OpenAI Response: '' @ display (choice_text first)),
             ProcessExit 0]
        \<and> stdout_of (program w) =
            [str ''Current working directory: '' @ cwd w,
             str ''OpenAI Response: '' @ display (choice_text first)]
        \<and> stderr_of (program w) = [] \<and> exit_status (program w) = [0]))"
proof (cases "run_fails w")
  case True
  with program_ends [of w] not_run_fails_iff [of w] obtain before message where
    run: "program w = before @ handleError message"
    and quiet: "stderr_of before = []" "exit_status before = []"
    by blast
  from run quiet have "stderr_of (program w) = [message]"
    and "exit_status (program w) = [1]"
    by (simp_all add: handleError_shows)
  with True failing_run_output [OF True] show ?thesis by blast
next
  case False
  then obtain p s c first others where ok: "ToBoolean (OPENAI_API_KEY w)" "argv2 w = Some p"
      "p \<noteq> []" "readFile w p = Inr s" "trim s \<noteq> []"
      "createCompletion w (request_for (generatePrompt promptTemplate s)) = Inr c"
      "choices c = first # others"
    using not_run_fails_iff [of w] by blast
  have run: "program w =
      [ReadFile p,
       ConsoleLog (str ''Current working directory: '' @ cwd w),
       CreateCompletion (request_for (generatePrompt promptTemplate s)),
       ConsoleLog (str ''OpenAI Response: '' @ display (choice_text first)),
       ProcessExit 0]"
    by (rule program_success [OF ok])
  have "stderr_of (program w) = []" and "exit_status (program w) = [0]"
    and "stdout_of (program w) =
      [str ''Current working directory: '' @ cwd w,
       str ''OpenAI Response: '' @ display (choice_text first)]"
    by (simp_all add: run stderr_of_def exit_status_def stdout_of_def)
  with False ok(2,4,6,7) run show ?thesis by blast
qed

theorem C3_witness:
  "run_fails (example_world (Some (str ''sk-test'')) (Some (str ''stock.txt''))
      (str '' \<newline>'') (str ''AB 5''))
   \<and> exit_status (program (example_world (Some (str ''sk-test'')) (Some (str ''stock.txt''))
      (str '' \<newline>'') (str ''AB 5''))) = [1]
   \<and> stdout_of (program (example_world (Some (str ''sk-test'')) (Some (str ''stock.txt''))
      (str '' \<newline>'') (str ''AB 5''))) = []
   \<and> \<not> run_fails (example_world (Some (str ''sk-test'')) (Some (str ''stock.txt''))
      (str ''set-stock AB 10001'') (str ''AB 10001''))
   \<and> exit_status (program (example_world (Some (str ''sk-test'')) (Some (str ''stock.txt''))
      (str ''set-stock AB 10001'') (str ''AB 10001''))) = [0]
   \<and> stdout_of (program (example_world (Some (str ''sk-test'')) (Some (str ''stock.txt''))
      (str ''set-stock AB 10001'') (str ''AB 10001''))) =
     [str ''Current working directory: /srv/stock'', str ''OpenAI Response: AB 10001'']"
proof -
  let ?blank = "example_world (Some (str ''sk-test'')) (Some (str ''stock.txt''))
      (str '' \<newline>'') (str ''AB 5'')"
  let ?full = "example_world (Some (str ''sk-test'')) (Some (str ''stock.txt''))
      (str ''set-stock AB 10001'') (str ''AB 10001'')"
  have blank: "run_fails ?blank"
    by (simp add: run_fails_def example_world_def ToBoolean_def str_def trim_def
        isWhiteSpace_def)
  have none: "requests_of (program ?blank) = []"
    by (simp add: program_unfold example_world_def ToBoolean_def str_def trim_def
        isWhiteSpace_def handleError_def requests_of_def)
  have full: "\<not> run_fails ?full"
    by (simp add: run_fails_def example_world_def ToBoolean_def str_def trim_def
        isWhiteSpace_def)
  from blank none C3_exit_status_follows_the_guards [of ?blank]
  have b: "exit_status (program ?blank) = [1]" "stdout_of (program ?blank) = []"
    by simp_all
  from full C3_exit_status_follows_the_guards [of ?full]
  obtain p s c first others where
    "argv2 ?full = Some p" "readFile ?full p = Inr s"
    "createCompletion ?full (request_for (generatePrompt promptTemplate s)) = Inr c"
    "choices c = first # others"
    "stdout_of (program ?full) =
       [str ''Current working directory: '' @ cwd ?full,
        str ''OpenAI Response: '' @ display (choice_text first)]"
    "exit_status (program ?full) = [0]"
    by blast
  then have f: "exit_status (program ?full) = [0]"
    "stdout_of (program ?full) =
     [str ''Current working directory: /srv/stock'', str ''OpenAI Response: AB 10001'']"
    by (auto simp: example_world_def display_def str_def)
  from blank full b f show ?thesis by (simp only: simp_thms)
qed


theorem C3_counterexample:
  "exit_status (program (example_world (Some (str ''sk-test'')) (Some (str ''stock.txt''))
      (str ''set-stock AB 10001'') (str ''AB 10001''))) = [0]
   \<and> stderr_of (program (example_world (Some (str ''sk-test'')) (Some (str ''stock.txt''))
      (str ''set-stock AB 10001'') (str ''AB 10001''))) = []
   \<and> stdout_of (program (example_world (Some (str ''sk-test'')) (Some (str ''stock.txt''))
      (str ''set-stock AB 10001'') (str ''AB 10001''))) =
     [str ''Current working directory: /srv/stock'', str ''OpenAI Response: AB 10001'']"
  by (simp add: program_unfold example_world_def ToBoolean_def str_def trim_def
      isWhiteSpace_def display_def exit_status_def stderr_of_def stdout_of_def)

subsection \<open>C4: an order that exceeds the stock\<close>

text \<open>
  C4, amended: when the API key is configured, the argument names a file that can be
  read, the content of the file is not blank and has no dollar sign (also a content with
  an order beyond the stock), and the service answers the request with a first choice of
  text \<open>reply\<close>, then the run is: the read of the file, the line with the working
  directory, one request whose prompt is the template with the content as it stands
  after the marker line, the line \<^verbatim>\<open>OpenAI Response:\<close> with \<open>reply\<close>, and the end
  with status 0. Nothing is written to standard error, and the run shows no stock level
  and no warning other than what \<open>reply\<close> holds. The prompt holds both the line that
  such an order cannot be processed and the line that it should proceed with the negative
  level flagged.
\<close>

theorem C4_orders_are_left_to_the_service:
  assumes "ToBoolean (OPENAI_API_KEY w)" and "argv2 w = Some filePathArg"
    and "filePathArg \<noteq> []" and "readFile w filePathArg = Inr stockInstructions"
    and "trim stockInstructions \<noteq> []" and "36 \<notin> set stockInstructions"
    and "createCompletion w (request_for
          (template_before @ import_marker @ [10] @ stockInstructions @ template_after))
        = Inr completion"
    and "choices completion = Choice (Some reply) # others"
  shows "program w =
       [ReadFile filePathArg,
        ConsoleLog (str ''Current working directory: '' @ cwd w),
        CreateCompletion (request_for
          (template_before @ import_marker @ [10] @ stockInstructions @ template_after)),
        ConsoleLog (str ''OpenAI Response: '' @ reply),
        ProcessExit 0]
     \<and> requests_of (program w) =
       [request_for (template_before @ import_marker @ [10] @ stockInstructions @ template_after)]
     \<and> stdout_of (program w) =
       [str ''Current working directory: '' @ cwd w, str ''OpenAI Response: '' @ reply]
     \<and> stderr_of (program w) = []
     \<and> str ''- An order cannot be processed if the required quantity is greater than the available stock level for that SKU.''
       \<in> set promptTemplate_lines
     \<and> str ''2. **Negative Stock**: If an order operation makes stock level negative, the operation should proceed, but the negative stock level must be flagged for review.''
       \<in> set promptTemplate_lines"
proof -
  have "str ''- An order cannot be processed if the required quantity is greater than the available stock level for that SKU.''
      \<in> set template_requirements"
    and "str ''2. **Negative Stock**: If an order operation makes stock level negative, the operation should proceed, but the negative stock level must be flagged for review.''
      \<in> set template_requirements"
    by (simp_all add: template_requirements_def)
  then show ?thesis
    by (simp add: program_forwards [OF assms] set_promptTemplate_lines requests_of_def
        stdout_of_def stderr_of_def display_def)
qed

theorem C4_witness:
  "stdout_of (program (example_world (Some (str ''sk-test'')) (Some (str ''stock.txt''))
      (str ''set-stock AB 5\<newline>order ON-1 AB 7'') (str ''AB -2''))) =
     [str ''Current working directory: /srv/stock'', str ''OpenAI Response: AB -2'']"
proof -
  let ?w = "example_world (Some (str ''sk-test'')) (Some (str ''stock.txt''))
      (str ''set-stock AB 5\<newline>order ON-1 AB 7'') (str ''AB -2'')"
  have "ToBoolean (OPENAI_API_KEY ?w)" and "argv2 ?w = Some (str ''stock.txt'')"
    and "str ''stock.txt'' \<noteq> []"
    and "readFile ?w (str ''stock.txt'') = Inr (str ''set-stock AB 5\<newline>order ON-1 AB 7'')"
    and "trim (str ''set-stock AB 5\<newline>order ON-1 AB 7'') \<noteq> []"
    and "36 \<notin> set (str ''set-stock AB 5\<newline>order ON-1 AB 7'')"
    and "createCompletion ?w (request_for (template_before @ import_marker @ [10]
          @ str ''set-stock AB 5\<newline>order ON-1 AB 7'' @ template_after))
        = Inr \<lparr>choices = [Choice (Some (str ''AB -2''))]\<rparr>"
    and "choices \<lparr>choices = [Choice (Some (str ''AB -2''))]\<rparr> = Choice (Some (str ''AB -2'')) # []"
    by (simp_all add: example_world_def ToBoolean_def str_def trim_def isWhiteSpace_def)
  from C4_orders_are_left_to_the_service [OF this]
  have "stdout_of (program ?w) =
      [str ''Current working directory: '' @ cwd ?w, str ''OpenAI Response: '' @ str ''AB -2'']"
    by blast
  then show ?thesis
    by (simp add: example_world_def str_def)
qed

text \<open>
  C4 as stated does not hold: when the service answers with the first of the two lines,
  the output of the run has no stock level and no warning.
\<close>

theorem C4_counterexample:
  "stdout_of (program (example_world (Some (str ''sk-test'')) (Some (str ''stock.txt''))
      (str ''set-stock AB 5\<newline>order ON-1 AB 7'')
      (str ''An order cannot be processed if the required quantity is greater than the available stock level for that SKU.''))) =
     [str ''Current working directory: /srv/stock'',
      str ''OpenAI Response: An order cannot be processed if the required quantity is greater than the available stock level for that SKU.'']
   \<and> stderr_of (program (example_world (Some (str ''sk-test'')) (Some (str ''stock.txt''))
      (str ''set-stock AB 5\<newline>order ON-1 AB 7'')
      (str ''An order cannot be processed if the required quantity is greater than the available stock level for that SKU.''))) = []"
  by (simp add: program_unfold example_world_def ToBoolean_def str_def trim_def
      isWhiteSpace_def display_def stderr_of_def stdout_of_def)

subsection \<open>C5: the format of a SKU-ID\<close>

text \<open>
  C5, amended: when the API key is configured, the argument names a file that can be
  read, the content of the file is not blank and has no dollar sign, whatever SKU-IDs it
  names, and the service answers the request with at least one choice, then the run is:
  the read of the file, the line with the working directory, one request whose prompt is
  the template with the content as it stands after the marker line, the line
  \<^verbatim>\<open>OpenAI Response:\<close> with the text of the first choice (the word
  \<^verbatim>\<open>undefined\<close> when the choice has no text), and the end with status 0; nothing
  is written to standard error. The format of a SKU-ID is stated only in two lines of the
  prompt.
\<close>

theorem C5_no_sku_id_is_checked:
  assumes "ToBoolean (OPENAI_API_KEY w)" and "argv2 w = Some filePathArg"
    and "filePathArg \<noteq> []" and "readFile w filePathArg = Inr stockInstructions"
    and "trim stockInstructions \<noteq> []" and "36 \<notin> set stockInstructions"
    and "createCompletion w (request_for
          (template_before @ import_marker @ [10] @ stockInstructions @ template_after))
        = Inr completion"
    and "choices completion = first # others"
  shows "program w =
       [ReadFile filePathArg,
        ConsoleLog (str ''Current working directory: '' @ cwd w),
        CreateCompletion (request_for
          (template_before @ import_marker @ [10] @ stockInstructions @ template_after)),
        ConsoleLog (str ''OpenAI Response: '' @ display (choice_text first)),
        ProcessExit 0]
     \<and> exit_status (program w) = [0] \<and> stderr_of (program w) = []
     \<and> requests_of (program w) =
       [request_for (template_before @ import_marker @ [10] @ stockInstructions @ template_after)]
     \<and> str ''- SKU-IDs are alphanumeric strings.'' \<in> set promptTemplate_lines
     \<and> str ''- Length should be between 2 to 10 characters.'' \<in> set promptTemplate_lines"
proof -
  have "str ''- SKU-IDs are alphanumeric strings.'' \<in> set template_requirements"
    and "str ''- Length should be between 2 to 10 characters.'' \<in> set template_requirements"
    by (simp_all add: template_requirements_def)
  then show ?thesis
    by (simp add: program_forwards [OF assms] set_promptTemplate_lines requests_of_def
        exit_status_def stderr_of_def)
qed

theorem C5_witness:
  "\<not> spec_sku_id_format (str ''A'')
   \<and> exit_status (program (example_world (Some (str ''sk-test'')) (Some (str ''stock.txt''))
        (str ''set-stock A 5'') (str ''A 5''))) = [0]
   \<and> requests_of (program (example_world (Some (str ''sk-test'')) (Some (str ''stock.txt''))
        (str ''set-stock A 5'') (str ''A 5''))) =
       [request_for (template_before @ import_marker @ [10] @ str ''set-stock A 5''
          @ template_after)]"
proof -
  let ?w = "example_world (Some (str ''sk-test'')) (Some (str ''stock.txt''))
        (str ''set-stock A 5'') (str ''A 5'')"
  have "ToBoolean (OPENAI_API_KEY ?w)" and "argv2 ?w = Some (str ''stock.txt'')"
    and "str ''stock.txt'' \<noteq> []"
    and "readFile ?w (str ''stock.txt'') = Inr (str ''set-stock A 5'')"
    and "trim (str ''set-stock A 5'') \<noteq> []"
    and "36 \<notin> set (str ''set-stock A 5'')"
    and "createCompletion ?w (request_for (template_before @ import_marker @ [10]
          @ str ''set-stock A 5'' @ template_after))
        = Inr \<lparr>choices = [Choice (Some (str ''A 5''))]\<rparr>"
    and "choices \<lparr>choices = [Choice (Some (str ''A 5''))]\<rparr> = Choice (Some (str ''A 5'')) # []"
    by (simp_all add: example_world_def ToBoolean_def str_def trim_def isWhiteSpace_def)
  from C5_no_sku_id_is_checked [OF this]
  have "exit_status (program ?w) = [0]"
    and "requests_of (program ?w) =
       [request_for (template_before @ import_marker @ [10] @ str ''set-stock A 5''
          @ template_after)]"
    by blast+
  moreover have "\<not> spec_sku_id_format (str ''A'')"
    by (simp add: spec_sku_id_format_def str_def)
  ultimately show ?thesis by simp
qed

text \<open>
  C5 as stated does not hold: an instruction on the SKU-ID \<^verbatim>\<open>A\<close>, which is outside
  the format, is not rejected.
\<close>

theorem C5_counterexample:
  "\<not> spec_sku_id_format (str ''A'')
   \<and> program (example_world (Some (str ''sk-test'')) (Some (str ''stock.txt''))
        (str ''set-stock A 5'') (str ''A 5'')) =
     [ReadFile (str ''stock.txt''),
      ConsoleLog (str ''Current working directory: /srv/stock''),
      CreateCompletion (request_for (generatePrompt promptTemplate (str ''set-stock A 5''))),
      ConsoleLog (str ''OpenAI Response: A 5''),
      ProcessExit 0]"
  by (simp add: program_unfold example_world_def ToBoolean_def str_def trim_def
      isWhiteSpace_def display_def spec_sku_id_format_def)

subsection \<open>C6: a SKU that was never set\<close>

text \<open>
  C6, amended: when the API key is configured, the argument names a file that can be
  read, the content of the file is not blank and has no dollar sign (also a content
  whose add-stock or order names a SKU that was never set), and the service answers the
  request with a first choice of text \<open>reply\<close>, then the run is: the read of the file,
  the line with the working directory, one request whose prompt is the template with the
  content as it stands after the marker line, the line \<^verbatim>\<open>OpenAI Response:\<close> with
  \<open>reply\<close>, and the end with status 0; nothing is written to standard error. The
  requirement, and the request to withhold the stock levels when it is not met, are lines
  of the prompt.
\<close>

theorem C6_no_initialisation_is_checked:
  assumes \<open>ToBoolean (OPENAI_API_KEY w)\<close> and \<open>argv2 w = Some filePathArg\<close>
    and \<open>filePathArg \<noteq> []\<close> and \<open>readFile w filePathArg = Inr stockInstructions\<close>
    and \<open>trim stockInstructions \<noteq> []\<close> and \<open>36 \<notin> set stockInstructions\<close>
    and \<open>createCompletion w (request_for
          (template_before @ import_marker @ [10] @ stockInstructions @ template_after))
        = Inr completion\<close>
    and \<open>choices completion = Choice (Some reply) # others\<close>
  shows \<open>program w =
       [ReadFile filePathArg,
        ConsoleLog (str ''Current working directory: '' @ cwd w),
        CreateCompletion (request_for
          (template_before @ import_marker @ [10] @ stockInstructions @ template_after)),
        ConsoleLog (str ''OpenAI Response: '' @ reply),
        ProcessExit 0]
     \<and> stdout_of (program w) =
       [str ''Current working directory: '' @ cwd w, str ''OpenAI Response: '' @ reply]
     \<and> stderr_of (program w) = [] \<and> exit_status (program w) = [0]
     \<and> str ''- SKU must be initialized using set-stock before performing add-stock or order operations on it.''
       \<in> set promptTemplate_lines
     \<and> str ''If any of these requirements are not met, terminate the process, return the errors using a "''
         @ [10060] @ str ''" emoji, and do not proceed with outputting the stock levels.''
       \<in> set promptTemplate_lines\<close>
proof -
  have \<open>str ''- SKU must be initialized using set-stock before performing add-stock or order operations on it.''
      \<in> set template_requirements\<close>
    and \<open>str ''If any of these requirements are not met, terminate the process, return the errors using a "''
         @ [10060] @ str ''" emoji, and do not proceed with outputting the stock levels.''
      \<in> set template_requirements\<close>
    by (simp_all add: template_requirements_def)
  then show ?thesis
    by (simp add: program_forwards [OF assms] set_promptTemplate_lines exit_status_def
        stdout_of_def stderr_of_def display_def)
qed

theorem C6_witness:
  "stdout_of (program (example_world (Some (str ''sk-test'')) (Some (str ''stock.txt''))
      (str ''add-stock XY9 5'') (str ''UninitializedSku XY9''))) =
     [str ''Current working directory: /srv/stock'',
      str ''OpenAI Response: UninitializedSku XY9'']
   \<and> exit_status (program (example_world (Some (str ''sk-test'')) (Some (str ''stock.txt''))
      (str ''add-stock XY9 5'') (str ''UninitializedSku XY9''))) = [0]"
proof -
  let ?w = "example_world (Some (str ''sk-test'')) (Some (str ''stock.txt''))
      (str ''add-stock XY9 5'') (str ''UninitializedSku XY9'')"
  have "ToBoolean (OPENAI_API_KEY ?w)" and "argv2 ?w = Some (str ''stock.txt'')"
    and "str ''stock.txt'' \<noteq> []"
    and "readFile ?w (str ''stock.txt'') = Inr (str ''add-stock XY9 5'')"
    and "trim (str ''add-stock XY9 5'') \<noteq> []"
    and "36 \<notin> set (str ''add-stock XY9 5'')"
    and "createCompletion ?w (request_for (template_before @ import_marker @ [10]
          @ str ''add-stock XY9 5'' @ template_after))
        = Inr \<lparr>choices = [Choice (Some (str ''UninitializedSku XY9''))]\<rparr>"
    and "choices \<lparr>choices = [Choice (Some (str ''UninitializedSku XY9''))]\<rparr>
        = Choice (Some (str ''UninitializedSku XY9'')) # []"
    by (simp_all add: example_world_def ToBoolean_def str_def trim_def isWhiteSpace_def)
  from C6_no_initialisation_is_checked [OF this]
  have "stdout_of (program ?w) =
      [str ''Current working directory: '' @ cwd ?w,
       str ''OpenAI Response: '' @ str ''UninitializedSku XY9'']"
    and "exit_status (program ?w) = [0]"
    by blast+
  then show ?thesis
    by (simp add: example_world_def str_def)
qed

text \<open>
  C6 as stated does not hold: for an add-stock on a SKU that was never set, a reply with
  stock levels is printed and the run ends with status 0.
\<close>

theorem C6_counterexample:
  "program (example_world (Some (str ''sk-test'')) (Some (str ''stock.txt''))
      (str ''add-stock XY9 5'') (str ''Final Stock Levels:\<newline>XY9 5'')) =
     [ReadFile (str ''stock.txt''),
      ConsoleLog (str ''Current working directory: /srv/stock''),
      CreateCompletion (request_for (generatePrompt promptTemplate (str ''add-stock XY9 5''))),
      ConsoleLog (str ''OpenAI Response: Final Stock Levels:\<newline>XY9 5''),
      ProcessExit 0]"
  by (simp add: program_unfold example_world_def ToBoolean_def str_def trim_def
      isWhiteSpace_def display_def)

subsection \<open>C7: reading back a level that was set\<close>

text \<open>
  C7, amended: when the API key is configured, the argument names a file that can be
  read and whose content is one instruction \<^verbatim>\<open>set-stock\<close>, a SKU-ID and a level (any
  two texts without a dollar sign, whatever the level), and the service answers the
  request with a first choice of text \<open>reply\<close>, then the run is: the read of the file,
  the line with the working directory, one request whose prompt is the template with the
  instruction as it stands after the marker line, the line \<^verbatim>\<open>OpenAI Response:\<close>
  with \<open>reply\<close>, and the end with status 0; nothing is written to standard error. What
  the run shows for the SKU is what \<open>reply\<close> holds. The prompt describes set-stock and the
  maximum level in its own lines.
\<close>

theorem C7_set_stock_is_forwarded:
  assumes "ToBoolean (OPENAI_API_KEY w)" and "argv2 w = Some filePathArg"
    and "filePathArg \<noteq> []"
    and "readFile w filePathArg = Inr (str ''set-stock '' @ sku @ str '' '' @ level)"
    and "36 \<notin> set sku" and "36 \<notin> set level"
    and "createCompletion w (request_for
          (template_before @ import_marker @ [10]
             @ (str ''set-stock '' @ sku @ str '' '' @ level) @ template_after))
        = Inr completion"
    and "choices completion = Choice (Some reply) # others"
  shows "program w =
       [ReadFile filePathArg,
        ConsoleLog (str ''Current working directory: '' @ cwd w),
        CreateCompletion (request_for
          (template_before @ import_marker @ [10]
             @ (str ''set-stock '' @ sku @ str '' '' @ level) @ template_after)),
        ConsoleLog (str ''OpenAI Response: '' @ reply),
        ProcessExit 0]
     \<and> requests_of (program w) =
       [request_for (template_before @ import_marker @ [10]
          @ (str ''set-stock '' @ sku @ str '' '' @ level) @ template_after)]
     \<and> stdout_of (program w) =
       [str ''Current working directory: '' @ cwd w, str ''OpenAI Response: '' @ reply]
     \<and> stderr_of (program w) = [] \<and> exit_status (program w) = [0]
     \<and> str ''1. **set-stock**: Initialize stock levels'' \<in> set promptTemplate_lines
     \<and> str ''- Maximum allowable stock level is 10,000.'' \<in> set promptTemplate_lines"
proof -
  have lines: "str ''1. **set-stock**: Initialize stock levels'' \<in> set template_input_format"
    "str ''- Maximum allowable stock level is 10,000.'' \<in> set template_requirements"
    by (simp_all add: template_input_format_def template_requirements_def)
  have content: "trim (str ''set-stock '' @ sku @ str '' '' @ level) \<noteq> []"
    by (rule trim_set_stock)
  have plain: "36 \<notin> set (str ''set-stock '' @ sku @ str '' '' @ level)"
    using assms(5,6) by (simp add: str_def)
  from lines show ?thesis
    by (simp add: program_forwards [OF assms(1-4) content plain assms(7,8)]
        set_promptTemplate_lines requests_of_def stdout_of_def stderr_of_def
        exit_status_def display_def)
qed

theorem C7_witness:
  "stdout_of (program (example_world (Some (str ''sk-test'')) (Some (str ''stock.txt''))
      (str ''set-stock AB 5'') (str ''AB 5''))) =
     [str ''Current working directory: /srv/stock'', str ''OpenAI Response: AB 5'']
   \<and> requests_of (program (example_world (Some (str ''sk-test'')) (Some (str ''stock.txt''))
      (str ''set-stock AB 5'') (str ''AB 5''))) =
     [request_for (template_before @ import_marker @ [10] @ str ''set-stock AB 5''
        @ template_after)]"
proof -
  let ?w = "example_world (Some (str ''sk-test'')) (Some (str ''stock.txt''))
      (str ''set-stock AB 5'') (str ''AB 5'')"
  have "ToBoolean (OPENAI_API_KEY ?w)" and "argv2 ?w = Some (str ''stock.txt'')"
    and "str ''stock.txt'' \<noteq> []"
    and "readFile ?w (str ''stock.txt'') = Inr (str ''set-stock '' @ str ''AB'' @ str '' '' @ str ''5'')"
    and "36 \<notin> set (str ''AB'')" and "36 \<notin> set (str ''5'')"
    and "createCompletion ?w (request_for (template_before @ import_marker @ [10]
          @ (str ''set-stock '' @ str ''AB'' @ str '' '' @ str ''5'') @ template_after))
        = Inr \<lparr>choices = [Choice (Some (str ''AB 5''))]\<rparr>"
    and "choices \<lparr>choices = [Choice (Some (str ''AB 5''))]\<rparr> = Choice (Some (str ''AB 5'')) # []"
    by (simp_all add: example_world_def ToBoolean_def str_def)
  from C7_set_stock_is_forwarded [OF this]
  have "stdout_of (program ?w) =
      [str ''Current working directory: '' @ cwd ?w, str ''OpenAI Response: '' @ str ''AB 5'']"
    and "requests_of (program ?w) =
      [request_for (template_before @ import_marker @ [10]
         @ (str ''set-stock '' @ str ''AB'' @ str '' '' @ str ''5'') @ template_after)]"
    by blast+
  then show ?thesis
    by (simp add: example_world_def str_def)
qed

text \<open>
  C7 as stated does not hold: the level that the run shows after
  \<^verbatim>\<open>set-stock AB 5\<close> is the one in the reply, here 7.
\<close>

theorem C7_counterexample:
  "stdout_of (program (example_world (Some (str ''sk-test'')) (Some (str ''stock.txt''))
      (str ''set-stock AB 5'') (str ''AB 7''))) =
     [str ''Current working directory: /srv/stock'', str ''OpenAI Response: AB 7'']"
  by (simp add: program_unfold example_world_def ToBoolean_def str_def trim_def
      isWhiteSpace_def display_def stdout_of_def)

subsection \<open>C8: a blank file\<close>

text \<open>
  C8, amended: when the API key is configured and the file named on the command line has
  been read, a content of white space only (or no content) makes the program write
  \<^verbatim>\<open>Please enter valid stock instructions in the file.\<close> to standard error and exit
  with status 1; no request is sent and nothing is printed to standard output.
\<close>

theorem C8_blank_file_with_api_key:
  assumes "ToBoolean (OPENAI_API_KEY w)" and "argv2 w = Some filePathArg"
    and "filePathArg \<noteq> []" and "readFile w filePathArg = Inr stockInstructions"
    and "\<forall>c\<in>set stockInstructions. isWhiteSpace c"
  shows "program w =
     [ReadFile filePathArg,
      ConsoleError (str ''Please enter valid stock instructions in the file.''),
      ProcessExit 1]
     \<and> requests_of (program w) = [] \<and> stdout_of (program w) = []"
proof -
  from assms(5) have "trim stockInstructions = []"
    by (simp add: trim_eq_Nil_iff)
  with assms(1-4) have "program w =
     [ReadFile filePathArg,
      ConsoleError (str ''Please enter valid stock instructions in the file.''),
      ProcessExit 1]"
    by (simp add: program_unfold handleError_def)
  then show ?thesis
    by (simp add: requests_of_def stdout_of_def)
qed

theorem C8_witness:
  "program (example_world (Some (str ''sk-test'')) (Some (str ''stock.txt''))
      (str '' \<newline>'') (str ''AB 5'')) =
     [ReadFile (str ''stock.txt''),
      ConsoleError (str ''Please enter valid stock instructions in the file.''),
      ProcessExit 1]"
proof -
  let ?w = "example_world (Some (str ''sk-test'')) (Some (str ''stock.txt''))
      (str '' \<newline>'') (str ''AB 5'')"
  have "ToBoolean (OPENAI_API_KEY ?w)" and "argv2 ?w = Some (str ''stock.txt'')"
    and "str ''stock.txt'' \<noteq> []" and "readFile ?w (str ''stock.txt'') = Inr (str '' \<newline>'')"
    and "\<forall>c\<in>set (str '' \<newline>''). isWhiteSpace c"
    by (simp_all add: example_world_def ToBoolean_def str_def isWhiteSpace_def)
  from C8_blank_file_with_api_key [OF this] show ?thesis by simp
qed

text \<open>
  C8 as stated does not hold without the API key: the client is initialised before
  \<^verbatim>\<open>main\<close> runs, so the run ends with the message about the key and the file is
  never read.
\<close>

theorem C8_counterexample:
  "program (example_world None (Some (str ''stock.txt'')) (str '' \<newline>'') (str ''AB 5'')) =
     [ConsoleError (str ''OpenAI API key not configured''), ProcessExit 1]
   \<and> ConsoleError (str ''Please enter valid stock instructions in the file.'')
       \<notin> set (program (example_world None (Some (str ''stock.txt'')) (str '' \<newline>'')
             (str ''AB 5'')))"
  by (simp add: program_unfold example_world_def ToBoolean_def handleError_def str_def)

subsection \<open>C9: no file path argument\<close>

text \<open>
  C9, amended: when the API key is configured and the program is invoked without a file
  path argument (or with an empty one), it writes
  \<^verbatim>\<open>Please specify the path to the file containing stock instructions.\<close> to standard
  error and exits with status 1, and no file is read.
\<close>

theorem C9_missing_argument_with_api_key:
  assumes "ToBoolean (OPENAI_API_KEY w)" and "\<not> ToBoolean (argv2 w)"
  shows "program w =
     [ConsoleError (str ''Please specify the path to the file containing stock instructions.''),
      ProcessExit 1]
     \<and> files_read (program w) = []"
proof -
  from assms have "program w =
     [ConsoleError (str ''Please specify the path to the file containing stock instructions.''),
      ProcessExit 1]"
    by (cases "argv2 w") (simp_all add: program_unfold handleError_def ToBoolean_def)
  then show ?thesis
    by (simp add: files_read_def)
qed

theorem C9_witness:
  "program (example_world (Some (str ''sk-test'')) None (str ''set-stock AB 5'') (str ''AB 5'')) =
     [ConsoleError (str ''Please specify the path to the file containing stock instructions.''),
      ProcessExit 1]"
proof -
  let ?w = "example_world (Some (str ''sk-test'')) None (str ''set-stock AB 5'') (str ''AB 5'')"
  have "ToBoolean (OPENAI_API_KEY ?w)" and "\<not> ToBoolean (argv2 ?w)"
    by (simp_all add: example_world_def ToBoolean_def str_def)
  from C9_missing_argument_with_api_key [OF this] show ?thesis by simp
qed

text \<open>
  C9 as stated does not hold without the API key: with neither key nor argument the only
  message is the one about the key.
\<close>

theorem C9_counterexample:
  "argv2 (example_world None None (str ''set-stock AB 5'') (str ''AB 5'')) = None
   \<and> program (example_world None None (str ''set-stock AB 5'') (str ''AB 5'')) =
     [ConsoleError (str ''OpenAI API key not configured''), ProcessExit 1]
   \<and> ConsoleError (str ''Please specify the path to the file containing stock instructions.'')
       \<notin> set (program (example_world None None (str ''set-stock AB 5'') (str ''AB 5'')))"
  by (simp add: program_unfold example_world_def ToBoolean_def handleError_def str_def)

subsection \<open>C10: one handler for every failure\<close>



end
